theory Spec2Isabelle
  imports Main
begin

section \<open>Values of the host language\<close>

text \<open>
  The module \<^verbatim>\<open>static/src/datetime_picker.js\<close> patches the method \<^verbatim>\<open>onPropsUpdated\<close>
  of the \<^verbatim>\<open>DateTimePicker\<close> component. The method can leave in three exceptional ways:
  the \<^verbatim>\<open>throw new Error(...)\<close> of line 164 (the specification's ConfigurationError), the
  TypeError that JavaScript raises when a property of \<^verbatim>\<open>null\<close> or \<^verbatim>\<open>undefined\<close> is read,
  and an exception that one of the inherited methods it calls lets escape
  (\<open>InheritedError\<close>, whatever its class).
\<close>

datatype error = ConfigurationError | TypeError | InheritedError

text \<open>
  A luxon \<^verbatim>\<open>DateTime\<close>, as far as the method reads it: the validity flag, the local
  calendar reading (a day number from 1970-01-01 and the time of day) and \<^verbatim>\<open>offset\<close>,
  the minutes by which the zone is ahead of UTC at that instant.
\<close>

record DateTime =
  isValid :: bool
  day :: int
  hour :: nat
  minute :: nat
  second :: nat
  millisecond :: nat
  offset :: int

text \<open>
  \<^verbatim>\<open>valueOf()\<close> is what the relational operators of JavaScript compare: the
  milliseconds of the instant since the epoch, which are those of the local reading less
  the offset, or NaN (here \<open>None\<close>) for an invalid DateTime. Two readings of an hour
  that a zone transition repeats differ in their offsets, and so in their instants.
\<close>

definition localMillis :: "DateTime \<Rightarrow> int" where
  "localMillis d =
     (((day d * 24 + int (hour d)) * 60 + int (minute d)) * 60 + int (second d)) * 1000
       + int (millisecond d)"

definition valueOf :: "DateTime \<Rightarrow> int option" where
  "valueOf d = (if isValid d then Some (localMillis d - offset d * 60000) else None)"

text \<open>\<^verbatim>\<open>a < b\<close> on two DateTime objects: a comparison with NaN is false.\<close>

definition js_lt :: "DateTime \<Rightarrow> DateTime \<Rightarrow> bool" where
  "js_lt a b =
     (case valueOf a of
        None \<Rightarrow> False
      | Some x \<Rightarrow> (case valueOf b of None \<Rightarrow> False | Some y \<Rightarrow> x < y))"

text \<open>
  \<^verbatim>\<open>date.startOf("day")\<close> and \<^verbatim>\<open>date.endOf("day")\<close>; luxon returns an invalid
  DateTime unchanged. The offset is kept: the day is taken to hold no zone transition,
  so that it runs from 00:00:00.000 to 23:59:59.999.
\<close>

definition startOf_day :: "DateTime \<Rightarrow> DateTime" where
  "startOf_day d =
     (if isValid d then d\<lparr>hour := 0, minute := 0, second := 0, millisecond := 0\<rparr> else d)"

definition endOf_day :: "DateTime \<Rightarrow> DateTime" where
  "endOf_day d =
     (if isValid d then d\<lparr>hour := 23, minute := 59, second := 59, millisecond := 999\<rparr> else d)"

text \<open>
  \<^verbatim>\<open>String(n)\<close> for a non-negative integer, and \<^verbatim>\<open>s.padStart(n, "0")\<close>.
\<close>

definition digit :: "nat \<Rightarrow> char" where
  "digit n = ''0123456789'' ! n"

fun js_String :: "nat \<Rightarrow> string" where
  "js_String n = (if n < 10 then [digit n] else js_String (n div 10) @ [digit (n mod 10)])"

declare js_String.simps [simp del]

definition padStart :: "nat \<Rightarrow> char \<Rightarrow> string \<Rightarrow> string" where
  "padStart n c s = replicate (n - length s) c @ s"

text \<open>
  \<^verbatim>\<open>m % r\<close> for a dividend \<open>m \<ge> 0\<close>: NaN (here \<open>None\<close>) when the divisor is 0,
  otherwise the remainder of the magnitudes (the sign of a JavaScript remainder is the
  dividend's). \<^verbatim>\<open>!x\<close> on such a number holds exactly for NaN and 0.
\<close>

definition js_rem :: "nat \<Rightarrow> int \<Rightarrow> nat option" where
  "js_rem m r = (if r = 0 then None else Some (m mod nat \<bar>r\<bar>))"

definition js_not :: "nat option \<Rightarrow> bool" where
  "js_not x = (case x of None \<Rightarrow> True | Some n \<Rightarrow> n = 0)"

text \<open>
  An entry of a time value is a number until line 185 turns it into a string. An index
  of a JavaScript array is a hole (never assigned; \<^verbatim>\<open>map\<close> skips it), holds
  \<^verbatim>\<open>undefined\<close>, or holds an element.
\<close>

datatype jsval = Num nat | Str string

datatype 'a slot = Hole | Undefined | Elem 'a

section \<open>Properties and component state\<close>

datatype DateLimit = Today | Absent | Explicit DateTime

datatype PrecisionLevel = Days | Months | Years | Decades

datatype WidgetType = DateOnly | DateAndTime

datatype PickerValue = Single "DateTime option" | Multiple "DateTime option list"

text \<open>
  \<^verbatim>\<open>DateTimePickerProps\<close> (lines 34 to 50), the fields the method reads. A nullable
  DateTime is an \<open>option\<close>; \<^verbatim>\<open>value\<close> is one nullable DateTime or an array of them.
\<close>

record props =
  p_value :: PickerValue
  p_range :: bool
  p_minDate :: DateLimit
  p_maxDate :: DateLimit
  p_minPrecision :: PrecisionLevel
  p_maxPrecision :: PrecisionLevel
  p_rounding :: int
  p_type :: WidgetType
  p_focusedDateIndex :: nat

text \<open>
  The component \<^verbatim>\<open>this\<close>: its current properties \<^verbatim>\<open>this.props\<close>, the fields the
  method assigns, the reactive \<^verbatim>\<open>this.state.timeValues\<close>, and the two fields the
  specification gives to the inherited methods (\<open>focusedIndex\<close>, \<open>is24HourFormat\<close>).
\<close>

record picker =
  this_props :: props
  this_values :: "DateTime option list"
  this_availableHours :: "(nat \<times> string) list"
  this_availableMinutes :: "(nat \<times> string) list"
  this_availableSeconds :: "(nat \<times> string) list"
  this_allowedPrecisionLevels :: "PrecisionLevel list"
  this_additionalMonth :: bool
  this_maxDate :: DateTime
  this_minDate :: DateTime
  this_state_timeValues :: "jsval list slot list"
  this_shouldAdjustFocusDate :: bool
  this_focusedIndex :: nat
  this_is24HourFormat :: bool

text \<open>
  What the method takes from outside the module: the clock (\<^verbatim>\<open>DateTime.local()\<close>, read
  as one instant for the whole call), the two global bounds imported from
  \<^verbatim>\<open>@web/core/l10n/dates\<close>, \<^verbatim>\<open>this.env.isSmall\<close>, and the three methods of the
  patched class that the module calls and does not define.
\<close>

record env =
  now :: DateTime
  MIN_VALID_DATE :: DateTime
  MAX_VALID_DATE :: DateTime
  isSmall :: bool
  filterPrecisionLevels :: "PrecisionLevel \<Rightarrow> PrecisionLevel \<Rightarrow> PrecisionLevel list"
  adjustFocus :: "DateTime option list \<Rightarrow> nat \<Rightarrow> picker \<Rightarrow> picker"
  handle12HourSystem :: "picker \<Rightarrow> picker"

section \<open>Imported helpers\<close>

text \<open>
  Modelled from the spec: \<^verbatim>\<open>today()\<close> is imported from \<^verbatim>\<open>@web/core/l10n/dates\<close>
  and not defined in the module. The specification has the sentinel resolve to the
  current moment, with start-of-day "today" as the resulting bound.
\<close>

definition today :: "env \<Rightarrow> DateTime" where
  "today e = startOf_day (now e)"

text \<open>
  Modelled from the spec: \<^verbatim>\<open>clampDate\<close> is imported from \<^verbatim>\<open>@web/core/l10n/dates\<close>;
  the specification has a bound "clamped into the global representable range".
\<close>

definition clampDate :: "DateTime \<Rightarrow> DateTime \<Rightarrow> DateTime \<Rightarrow> DateTime" where
  "clampDate desired minD maxD =
     (if js_lt maxD desired then maxD
      else if js_lt desired minD then minD
      else desired)"

text \<open>
  Modelled from the spec: \<^verbatim>\<open>ensureArray\<close> is imported from \<^verbatim>\<open>@web/core/utils/arrays\<close>;
  a value that is not an array becomes the array of that one value.
\<close>

definition ensureArray :: "PickerValue \<Rightarrow> DateTime option list" where
  "ensureArray v = (case v of Single x \<Rightarrow> [x] | Multiple xs \<Rightarrow> xs)"

section \<open>The module\<close>

text \<open>
  Line 115. \<^verbatim>\<open>Array(max - min)\<close> raises a RangeError for \<open>max < min\<close>; the module
  calls \<open>numberRange\<close> at \<open>(0, 24)\<close> and \<open>(0, 60)\<close> only.
\<close>

definition numberRange :: "nat \<Rightarrow> nat \<Rightarrow> nat list" where
  "numberRange min' max' = map (\<lambda>i. i + min') [0..<max' - min']"

text \<open>
  Lines 121 and 122. A DateTime object is truthy, also an invalid one, so
  \<^verbatim>\<open>value || defaultValue\<close> takes the default for an absent limit only.
\<close>

definition parseLimitDate :: "env \<Rightarrow> DateLimit \<Rightarrow> DateTime \<Rightarrow> DateTime" where
  "parseLimitDate e v defaultValue =
     clampDate
       (case v of Today \<Rightarrow> today e | Absent \<Rightarrow> defaultValue | Explicit d \<Rightarrow> d)
       (MIN_VALID_DATE e) (MAX_VALID_DATE e)"

text \<open>Lines 135 to 137.\<close>

definition HOURS :: "(nat \<times> string) list" where
  "HOURS = map (\<lambda>hour. (hour, js_String hour)) (numberRange 0 24)"

definition MINUTES :: "(nat \<times> string) list" where
  "MINUTES =
     map (\<lambda>minute. (minute, padStart 2 (CHR ''0'') (js_String (if minute \<noteq> 0 then minute else 0))))
       (numberRange 0 60)"

definition SECONDS :: "(nat \<times> string) list" where
  "SECONDS = MINUTES"

text \<open>Lines 144 to 146: the callback of \<^verbatim>\<open>map\<close> and the array it yields.\<close>

definition normalizeValue :: "DateTime option \<Rightarrow> DateTime option" where
  "normalizeValue v =
     (case v of None \<Rightarrow> None | Some d \<Rightarrow> if \<not> isValid d then None else Some d)"

text \<open>Lines 144 to 157: the assignments up to the two limits.\<close>

definition assignDerived :: "env \<Rightarrow> props \<Rightarrow> picker \<Rightarrow> picker" where
  "assignDerived e p s =
     s\<lparr>this_values := map normalizeValue (ensureArray (p_value p)),
       this_availableHours := HOURS,
       this_availableMinutes :=
         filter (\<lambda>minute. js_not (js_rem (fst minute) (p_rounding p))) MINUTES,
       this_availableSeconds := (if p_rounding p \<noteq> 0 then [] else SECONDS),
       this_allowedPrecisionLevels :=
         filterPrecisionLevels e (p_minPrecision p) (p_maxPrecision p),
       this_additionalMonth := (p_range p \<and> \<not> isSmall e),
       this_maxDate := parseLimitDate e (p_maxDate p) (MAX_VALID_DATE e),
       this_minDate := parseLimitDate e (p_minDate p) (MIN_VALID_DATE e)\<rparr>"

text \<open>
  Lines 158 to 161. The test reads \<^verbatim>\<open>this.props.type\<close>, the properties the component
  holds, not the \<^verbatim>\<open>props\<close> argument.
\<close>

definition widenLimits :: "picker \<Rightarrow> picker" where
  "widenLimits s =
     (if p_type (this_props s) = DateOnly
      then s\<lparr>this_maxDate := endOf_day (this_maxDate s),
             this_minDate := startOf_day (this_minDate s)\<rparr>
      else s)"

definition resolveLimits :: "env \<Rightarrow> props \<Rightarrow> picker \<Rightarrow> picker" where
  "resolveLimits e p s = widenLimits (assignDerived e p s)"

text \<open>
  Lines 168 to 172: the callback of \<^verbatim>\<open>map\<close>. On \<^verbatim>\<open>null\<close> the first entry is read
  from the clock, and \<^verbatim>\<open>val.minute\<close> then raises the TypeError. On a DateTime the
  number \<open>0\<close> is falsy, so \<^verbatim>\<open>val.minute || DateTime.local().minute\<close> reads the clock
  for a minute \<open>0\<close>, and likewise for the second.
\<close>

definition timeValue :: "env \<Rightarrow> DateTime option \<Rightarrow> error + jsval list" where
  "timeValue e val =
     (let h = hour (case val of Some d \<Rightarrow> d | None \<Rightarrow> now e) in
      case val of
        None \<Rightarrow> Inl TypeError
      | Some d \<Rightarrow>
          Inr [Num h,
               Num (if minute d \<noteq> 0 then minute d else minute (now e)),
               Num (if second d \<noteq> 0 then second d else second (now e))])"

text \<open>\<^verbatim>\<open>array.map(f)\<close> for a callback that can raise: the first exception leaves the loop.\<close>

fun mapE :: "('a \<Rightarrow> error + 'b) \<Rightarrow> 'a list \<Rightarrow> error + 'b list" where
  "mapE f [] = Inr []"
| "mapE f (x # xs) =
     (case f x of
        Inl err \<Rightarrow> Inl err
      | Inr y \<Rightarrow> (case mapE f xs of Inl err \<Rightarrow> Inl err | Inr ys \<Rightarrow> Inr (y # ys)))"

text \<open>
  Lines 175 to 180. In range mode every time value is stored. Otherwise the array is
  emptied and index \<^verbatim>\<open>props.focusedDateIndex\<close> is assigned: the indices below it are
  holes, and the index itself holds \<^verbatim>\<open>undefined\<close> when \<open>timeValues\<close> is too short.
\<close>

definition selectTimeValues :: "props \<Rightarrow> jsval list list \<Rightarrow> jsval list slot list" where
  "selectTimeValues p timeValues =
     (if p_range p then map Elem timeValues
      else replicate (p_focusedDateIndex p) Hole @
           [if p_focusedDateIndex p < length timeValues
            then Elem (timeValues ! p_focusedDateIndex p)
            else Undefined])"

text \<open>
  Line 185: \<^verbatim>\<open>String\<close> on each entry of each time value. \<^verbatim>\<open>map\<close> skips a hole and
  keeps it; on \<^verbatim>\<open>undefined\<close> the inner \<^verbatim>\<open>timeValue.map\<close> raises the TypeError.
\<close>

definition toStr :: "jsval \<Rightarrow> jsval" where
  "toStr v = (case v of Num n \<Rightarrow> Str (js_String n) | Str s \<Rightarrow> Str s)"

definition stringifySlot :: "jsval list slot \<Rightarrow> error + jsval list slot" where
  "stringifySlot x =
     (case x of
        Hole \<Rightarrow> Inr Hole
      | Undefined \<Rightarrow> Inl TypeError
      | Elem tv \<Rightarrow> Inr (Elem (map toStr tv)))"

text \<open>
  \<^verbatim>\<open>onPropsUpdated(props)\<close>, lines 142 to 186, on the component \<open>s\<close>, with line 185
  as \<open>formatTimeValues\<close>: the strings are assigned once every slot has been mapped. The method
  assigns the fields of the component one after the other, so an exception leaves the
  component as it is at that line: the result is \<open>Inl\<close> of the exception and that
  component, or \<open>Inr\<close> of the component at the end of the method. The
  \<^verbatim>\<open>console.log\<close> of line 181 changes nothing.
\<close>

definition formatTimeValues :: "picker \<Rightarrow> error \<times> picker + picker" where
  "formatTimeValues s =
     (case mapE stringifySlot (this_state_timeValues s) of
        Inl err \<Rightarrow> Inl (err, s)
      | Inr strings \<Rightarrow> Inr (s\<lparr>this_state_timeValues := strings\<rparr>))"

definition onPropsUpdated :: "env \<Rightarrow> props \<Rightarrow> picker \<Rightarrow> error \<times> picker + picker" where
  "onPropsUpdated e p s =
     (let s2 = resolveLimits e p s in
      if js_lt (this_maxDate s2) (this_minDate s2) then Inl (ConfigurationError, s2)
      else
        case mapE (timeValue e) (this_values s2) of
          Inl err \<Rightarrow> Inl (err, s2)
        | Inr timeValues \<Rightarrow>
            (let s3 = s2\<lparr>this_state_timeValues := selectTimeValues p timeValues\<rparr>;
                 s4 = s3\<lparr>this_shouldAdjustFocusDate := (\<not> p_range p)\<rparr>;
                 s5 = adjustFocus e (this_values s4) (p_focusedDateIndex p) s4;
                 s6 = handle12HourSystem e s5
             in formatTimeValues s6))"

text \<open>The two ways out of the method: the exception raised, the component returned.\<close>

definition raised :: "error \<times> picker + picker \<Rightarrow> error option" where
  "raised r = (case r of Inl x \<Rightarrow> Some (fst x) | Inr s \<Rightarrow> None)"

definition component :: "error \<times> picker + picker \<Rightarrow> picker" where
  "component r = (case r of Inl x \<Rightarrow> snd x | Inr s \<Rightarrow> s)"

subsection \<open>The method when an inherited method raises\<close>

text \<open>
  The three methods of the patched class are not in the module, and nothing in it keeps
  them from raising. Here each of them returns or raises: \<open>None\<close> says that
  \<^verbatim>\<open>filterPrecisionLevels\<close> raised, and \<open>Inl\<close> holds the component as
  \<^verbatim>\<open>adjustFocus\<close> or \<^verbatim>\<open>handle12HourSystem\<close> left it when it raised.
\<close>

record inherited =
  may_filterPrecisionLevels ::
    "PrecisionLevel \<Rightarrow> PrecisionLevel \<Rightarrow> PrecisionLevel list option"
  may_adjustFocus :: "DateTime option list \<Rightarrow> nat \<Rightarrow> picker \<Rightarrow> picker + picker"
  may_handle12HourSystem :: "picker \<Rightarrow> picker + picker"

text \<open>
  Lines 168 to 185 with these methods, on the component \<open>s2\<close> whose limits have passed
  the check of line 163.
\<close>

definition storeTimeValues ::
  "inherited \<Rightarrow> env \<Rightarrow> props \<Rightarrow> picker \<Rightarrow> error \<times> picker + picker" where
  "storeTimeValues h e p s2 =
     (case mapE (timeValue e) (this_values s2) of
        Inl err \<Rightarrow> Inl (err, s2)
      | Inr timeValues \<Rightarrow>
          (let s3 = s2\<lparr>this_state_timeValues := selectTimeValues p timeValues\<rparr>;
               s4 = s3\<lparr>this_shouldAdjustFocusDate := (\<not> p_range p)\<rparr>
           in case may_adjustFocus h (this_values s4) (p_focusedDateIndex p) s4 of
                Inl left \<Rightarrow> Inl (InheritedError, left)
              | Inr s5 \<Rightarrow>
                  (case may_handle12HourSystem h s5 of
                     Inl left \<Rightarrow> Inl (InheritedError, left)
                   | Inr s6 \<Rightarrow> formatTimeValues s6)))"

text \<open>
  \<^verbatim>\<open>onPropsUpdated(props)\<close>, lines 142 to 186, with these methods. The call of
  \<^verbatim>\<open>filterPrecisionLevels\<close> at line 150 comes after the four assignments of lines 144
  to 149 and before the limits: an exception there leaves the component with those four
  fields assigned.
\<close>

definition onPropsUpdated_raising ::
  "inherited \<Rightarrow> env \<Rightarrow> props \<Rightarrow> picker \<Rightarrow> error \<times> picker + picker" where
  "onPropsUpdated_raising h e p s =
     (let s1 = s\<lparr>this_values := map normalizeValue (ensureArray (p_value p)),
                 this_availableHours := HOURS,
                 this_availableMinutes :=
                   filter (\<lambda>minute. js_not (js_rem (fst minute) (p_rounding p))) MINUTES,
                 this_availableSeconds := (if p_rounding p \<noteq> 0 then [] else SECONDS)\<rparr>
      in case may_filterPrecisionLevels h (p_minPrecision p) (p_maxPrecision p) of
           None \<Rightarrow> Inl (InheritedError, s1)
         | Some levels \<Rightarrow>
             (let s2 = widenLimits
                         (s1\<lparr>this_allowedPrecisionLevels := levels,
                             this_additionalMonth := (p_range p \<and> \<not> isSmall e),
                             this_maxDate := parseLimitDate e (p_maxDate p) (MAX_VALID_DATE e),
                             this_minDate := parseLimitDate e (p_minDate p) (MIN_VALID_DATE e)\<rparr>)
              in if js_lt (this_maxDate s2) (this_minDate s2) then Inl (ConfigurationError, s2)
                 else storeTimeValues h e p s2))"

text \<open>The inherited methods of \<open>e\<close>, which return.\<close>

definition returning :: "env \<Rightarrow> inherited" where
  "returning e =
     \<lparr>may_filterPrecisionLevels = (\<lambda>lo hi. Some (filterPrecisionLevels e lo hi)),
      may_adjustFocus = (\<lambda>vals i s. Inr (adjustFocus e vals i s)),
      may_handle12HourSystem = (\<lambda>s. Inr (handle12HourSystem e s))\<rparr>"

subsection \<open>The limits as the specification resolves them\<close>

text \<open>
  Section 4.1 of the specification, in its words and from the configuration alone: the
  sentinel resolves to the current moment (\<^verbatim>\<open>today()\<close>), an absent bound to the global
  minimum or maximum, any other value is clamped into the global range; for a date-only
  widget the maximum is widened to the end of its day and the minimum to the start of
  its day.
\<close>

definition spec_resolveBound :: "env \<Rightarrow> DateLimit \<Rightarrow> DateTime \<Rightarrow> DateTime" where
  "spec_resolveBound e limit global =
     (case limit of
        Today \<Rightarrow> today e
      | Absent \<Rightarrow> global
      | Explicit d \<Rightarrow> clampDate d (MIN_VALID_DATE e) (MAX_VALID_DATE e))"

definition spec_effectiveMin :: "env \<Rightarrow> props \<Rightarrow> DateTime" where
  "spec_effectiveMin e p =
     (if p_type p = DateOnly
      then startOf_day (spec_resolveBound e (p_minDate p) (MIN_VALID_DATE e))
      else spec_resolveBound e (p_minDate p) (MIN_VALID_DATE e))"

definition spec_effectiveMax :: "env \<Rightarrow> props \<Rightarrow> DateTime" where
  "spec_effectiveMax e p =
     (if p_type p = DateOnly
      then endOf_day (spec_resolveBound e (p_maxDate p) (MAX_VALID_DATE e))
      else spec_resolveBound e (p_maxDate p) (MAX_VALID_DATE e))"

section \<open>The inherited methods, from the specification\<close>

text \<open>
  Modelled from the spec: \<^verbatim>\<open>filterPrecisionLevels\<close> is a method of the patched class,
  not defined in the module. Section 4.2: the contiguous slice of
  days, months, years, decades from \<open>minPrecision\<close> through \<open>maxPrecision\<close>. This is
  the slice alone, empty when \<open>minPrecision\<close> is coarser than \<open>maxPrecision\<close>; the
  rejection the specification asks for there is \<open>failfast_filterPrecisionLevels\<close>.
\<close>

definition levelIndex :: "PrecisionLevel \<Rightarrow> nat" where
  "levelIndex l = (case l of Days \<Rightarrow> 0 | Months \<Rightarrow> 1 | Years \<Rightarrow> 2 | Decades \<Rightarrow> 3)"

definition spec_filterPrecisionLevels ::
  "PrecisionLevel \<Rightarrow> PrecisionLevel \<Rightarrow> PrecisionLevel list" where
  "spec_filterPrecisionLevels lo hi =
     filter (\<lambda>l. levelIndex lo \<le> levelIndex l \<and> levelIndex l \<le> levelIndex hi)
       [Days, Months, Years, Decades]"

text \<open>
  Modelled from the spec: \<^verbatim>\<open>filterPrecisionLevels\<close> as sections 4.2 and 7 ask for it,
  failing fast: it raises when \<open>minPrecision\<close> is coarser than \<open>maxPrecision\<close> and
  returns the slice otherwise.
\<close>

definition failfast_filterPrecisionLevels ::
  "PrecisionLevel \<Rightarrow> PrecisionLevel \<Rightarrow> PrecisionLevel list option" where
  "failfast_filterPrecisionLevels lo hi =
     (if levelIndex hi < levelIndex lo then None else Some (spec_filterPrecisionLevels lo hi))"

text \<open>
  Modelled from the spec: \<^verbatim>\<open>adjustFocus\<close> is a method of the patched class, not defined
  in the module. Section 4.4: it runs in single-value mode only and picks the earliest
  non-empty value at or after the requested index; if no slot holds a value, the focus
  is left at the requested index.
\<close>

definition spec_adjustFocus :: "DateTime option list \<Rightarrow> nat \<Rightarrow> picker \<Rightarrow> picker" where
  "spec_adjustFocus vals i s =
     (if this_shouldAdjustFocusDate s
      then s\<lparr>this_focusedIndex :=
               (case filter (\<lambda>j. vals ! j \<noteq> None) [i..<length vals] of
                  [] \<Rightarrow> i
                | j # js \<Rightarrow> j)\<rparr>
      else s)"

text \<open>
  Modelled from the spec: \<^verbatim>\<open>handle12HourSystem\<close> is a method of the patched class, not
  defined in the module. Section 4.5: it resolves, from the locale alone, whether the
  clock is shown in 24-hour form.
\<close>

definition spec_handle12HourSystem :: "bool \<Rightarrow> picker \<Rightarrow> picker" where
  "spec_handle12HourSystem locale24 s = s\<lparr>this_is24HourFormat := locale24\<rparr>"

section \<open>Sample inputs\<close>

text \<open>
  Three values: 09:00:00 on one day, 10:30:15 on the next, and an invalid DateTime. The
  clock reads 14:37:52.123 a day later. The global bounds are the first instant of the
  year 1000 and the last of the year 9999, as day numbers from 1970-01-01.
\<close>

definition morning :: DateTime where
  "morning = \<lparr>isValid = True, day = 20000, hour = 9, minute = 0, second = 0, millisecond = 0,
      offset = 0\<rparr>"

definition later :: DateTime where
  "later = \<lparr>isValid = True, day = 20001, hour = 10, minute = 30, second = 15, millisecond = 0,
      offset = 0\<rparr>"

definition broken :: DateTime where
  "broken = \<lparr>isValid = False, day = 0, hour = 0, minute = 0, second = 0, millisecond = 0,
      offset = 0\<rparr>"

definition clock :: DateTime where
  "clock = \<lparr>isValid = True, day = 20002, hour = 14, minute = 37, second = 52, millisecond = 123,
      offset = 0\<rparr>"

definition year1000 :: DateTime where
  "year1000 = \<lparr>isValid = True, day = - 354285, hour = 0, minute = 0, second = 0, millisecond = 0,
      offset = 0\<rparr>"

definition year9999 :: DateTime where
  "year9999 =
     \<lparr>isValid = True, day = 2932896, hour = 23, minute = 59, second = 59, millisecond = 999,
      offset = 0\<rparr>"

text \<open>The surroundings with the inherited methods as the specification describes them.\<close>

definition host :: env where
  "host =
     \<lparr>now = clock, MIN_VALID_DATE = year1000, MAX_VALID_DATE = year9999, isSmall = False,
      filterPrecisionLevels = spec_filterPrecisionLevels,
      adjustFocus = spec_adjustFocus,
      handle12HourSystem = spec_handle12HourSystem True\<rparr>"

text \<open>
  The same surroundings with an \<open>adjustFocus\<close> that records, in \<open>focusedIndex\<close>, how
  many indices of \<^verbatim>\<open>this.state.timeValues\<close> are assigned at the moment it is called.
\<close>

definition probe_adjustFocus :: "DateTime option list \<Rightarrow> nat \<Rightarrow> picker \<Rightarrow> picker" where
  "probe_adjustFocus vals i s = s\<lparr>this_focusedIndex := length (this_state_timeValues s)\<rparr>"

definition probe :: env where
  "probe = host\<lparr>adjustFocus := probe_adjustFocus\<rparr>"

text \<open>The default properties of the widget, and a component no update has touched yet.\<close>

definition config :: props where
  "config =
     \<lparr>p_value = Single None, p_range = False, p_minDate = Absent, p_maxDate = Absent,
      p_minPrecision = Days, p_maxPrecision = Decades, p_rounding = 5, p_type = DateAndTime,
      p_focusedDateIndex = 0\<rparr>"

definition fresh :: picker where
  "fresh =
     \<lparr>this_props = config, this_values = [], this_availableHours = [],
      this_availableMinutes = [], this_availableSeconds = [],
      this_allowedPrecisionLevels = [], this_additionalMonth = False,
      this_maxDate = year9999, this_minDate = year1000, this_state_timeValues = [],
      this_shouldAdjustFocusDate = False, this_focusedIndex = 0,
      this_is24HourFormat = False\<rparr>"

text \<open>
  Properties whose \<^verbatim>\<open>maxDate\<close> (09:00:00 on the first day) comes before their
  \<^verbatim>\<open>minDate\<close> (10:30:15 on the next).
\<close>

definition inverted :: props where
  "inverted =
     config\<lparr>p_value := Single (Some later), p_minDate := Explicit later,
            p_maxDate := Explicit morning\<rparr>"

text \<open>
  Date-only properties with explicit limits at 09:00:00 and at 10:30:15; a pair of
  values in single-value mode with the second slot in focus; one value in range mode.
\<close>

definition dateOnly :: props where
  "dateOnly =
     config\<lparr>p_value := Single (Some later), p_minDate := Explicit morning,
            p_maxDate := Explicit later, p_type := DateOnly\<rparr>"

definition pairSingleMode :: props where
  "pairSingleMode =
     config\<lparr>p_value := Multiple [Some morning, Some later], p_focusedDateIndex := 1\<rparr>"

definition oneRangeMode :: props where
  "oneRangeMode = config\<lparr>p_value := Single (Some later), p_range := True\<rparr>"

text \<open>
  A range whose first slot is empty, and a single value at 09:00:00, whose minute and
  second are 0.
\<close>

definition rangeWithGap :: props where
  "rangeWithGap = config\<lparr>p_value := Multiple [None, Some later], p_range := True\<rparr>"

definition atMorning :: props where
  "atMorning = config\<lparr>p_value := Single (Some morning)\<rparr>"

text \<open>
  The inherited methods of the sample surroundings, with the precision filter that fails
  fast, and properties whose precisions and limits are both the wrong way round.
\<close>

definition strict :: inherited where
  "strict = (returning host)\<lparr>may_filterPrecisionLevels := failfast_filterPrecisionLevels\<rparr>"

definition invertedTwice :: props where
  "invertedTwice = inverted\<lparr>p_minPrecision := Decades, p_maxPrecision := Days\<rparr>"

text \<open>
  Limits the wrong way round within one day, 10:30:15 and 09:00:00 on the day of
  \<open>later\<close>: for a date+time widget, and the same for a date-only widget.
\<close>

definition sameDayEarly :: DateTime where
  "sameDayEarly =
     \<lparr>isValid = True, day = 20001, hour = 9, minute = 0, second = 0, millisecond = 0,
      offset = 0\<rparr>"

definition sameDay :: props where
  "sameDay =
     config\<lparr>p_value := Single (Some later), p_minDate := Explicit later,
            p_maxDate := Explicit sameDayEarly\<rparr>"

definition sameDayDate :: props where
  "sameDayDate = sameDay\<lparr>p_type := DateOnly\<rparr>"

text \<open>A component that holds date-only properties.\<close>

definition holdingDateOnly :: picker where
  "holdingDateOnly = fresh\<lparr>this_props := dateOnly\<rparr>"

text \<open>
  Limits in an hour that the zone repeats: the minimum reads 02:30 two hours ahead of
  UTC, the maximum reads 02:10 one hour ahead of UTC, forty minutes later.
\<close>

definition firstPass :: DateTime where
  "firstPass =
     \<lparr>isValid = True, day = 20001, hour = 2, minute = 30, second = 0, millisecond = 0,
      offset = 120\<rparr>"

definition secondPass :: DateTime where
  "secondPass =
     \<lparr>isValid = True, day = 20001, hour = 2, minute = 10, second = 0, millisecond = 0,
      offset = 60\<rparr>"

definition repeatedHour :: props where
  "repeatedHour =
     config\<lparr>p_value := Single (Some later), p_minDate := Explicit firstPass,
            p_maxDate := Explicit secondPass\<rparr>"

text \<open>A range whose first value is an invalid DateTime.\<close>

definition withBroken :: props where
  "withBroken = config\<lparr>p_value := Multiple [Some broken, Some later], p_range := True\<rparr>"

section \<open>The choices offered by the time editor\<close>













section \<open>The check of the two limits\<close>

lemma mapE_timeValue_error: "mapE (timeValue e) vs = Inl err \<Longrightarrow> err = TypeError"
  by (induction vs) (auto simp: timeValue_def Let_def split: option.splits sum.splits)

lemma mapE_stringifySlot_error: "mapE stringifySlot xs = Inl err \<Longrightarrow> err = TypeError"
  by (induction xs) (auto simp: stringifySlot_def split: slot.splits sum.splits)

lemma onPropsUpdated_inverted:
  "js_lt (this_maxDate (resolveLimits e p s)) (this_minDate (resolveLimits e p s)) \<Longrightarrow>
   onPropsUpdated e p s = Inl (ConfigurationError, resolveLimits e p s)"
  by (simp add: onPropsUpdated_def Let_def)

lemma onPropsUpdated_ordered:
  "\<not> js_lt (this_maxDate (resolveLimits e p s)) (this_minDate (resolveLimits e p s)) \<Longrightarrow>
   raised (onPropsUpdated e p s) \<noteq> Some ConfigurationError"
  by (auto simp: onPropsUpdated_def formatTimeValues_def Let_def raised_def
      dest: mapE_timeValue_error mapE_stringifySlot_error split: sum.splits)

lemma resolveLimits_frame:
  "this_state_timeValues (resolveLimits e p s) = this_state_timeValues s"
  "this_shouldAdjustFocusDate (resolveLimits e p s) = this_shouldAdjustFocusDate s"
  "this_focusedIndex (resolveLimits e p s) = this_focusedIndex s"
  "this_is24HourFormat (resolveLimits e p s) = this_is24HourFormat s"
  "this_props (resolveLimits e p s) = this_props s"
  by (simp_all add: resolveLimits_def widenLimits_def assignDerived_def)

lemma resolveLimits_assigned:
  "this_values (resolveLimits e p s) = map normalizeValue (ensureArray (p_value p))"
  "this_availableHours (resolveLimits e p s) = HOURS"
  "this_availableMinutes (resolveLimits e p s)
     = filter (\<lambda>minute. js_not (js_rem (fst minute) (p_rounding p))) MINUTES"
  "this_availableSeconds (resolveLimits e p s) = (if p_rounding p \<noteq> 0 then [] else SECONDS)"
  "this_allowedPrecisionLevels (resolveLimits e p s)
     = filterPrecisionLevels e (p_minPrecision p) (p_maxPrecision p)"
  "this_additionalMonth (resolveLimits e p s) = (p_range p \<and> \<not> isSmall e)"
  by (simp_all add: resolveLimits_def widenLimits_def assignDerived_def)

text \<open>The sample properties with the limits the wrong way round.\<close>

lemma limits_inverted:
  "this_maxDate (resolveLimits host inverted fresh) = morning"
  "this_minDate (resolveLimits host inverted fresh) = later"
  by (simp_all add: resolveLimits_def widenLimits_def assignDerived_def parseLimitDate_def
      clampDate_def js_lt_def valueOf_def localMillis_def inverted_def config_def fresh_def host_def
      morning_def later_def year1000_def year9999_def)

lemma morning_before_later: "js_lt morning later"
  by (simp add: js_lt_def valueOf_def localMillis_def morning_def later_def)

lemma inverted_raises:
  "js_lt (this_maxDate (resolveLimits host inverted fresh))
     (this_minDate (resolveLimits host inverted fresh))"
  by (simp add: limits_inverted morning_before_later)

lemma values_inverted: "this_values (resolveLimits host inverted fresh) = [Some later]"
  by (simp add: resolveLimits_assigned inverted_def config_def ensureArray_def
      normalizeValue_def later_def)

text \<open>
  Claim C5, as stated, fails. At the properties with the limits the wrong way round the
  ConfigurationError leaves a component whose \<open>values\<close> and \<open>minDate\<close> already hold
  the new values: the method assigns the fields of \<^verbatim>\<open>this\<close> in place, lines 144 to 161,
  before the check of line 163.
\<close>

theorem C5_counterexample:
  "raised (onPropsUpdated host inverted fresh) = Some ConfigurationError
   \<and> this_values fresh = []
   \<and> this_values (component (onPropsUpdated host inverted fresh)) = [Some later]
   \<and> this_minDate fresh = year1000
   \<and> this_minDate (component (onPropsUpdated host inverted fresh)) = later
   \<and> later \<noteq> year1000"
proof -
  have r: "onPropsUpdated host inverted fresh
      = Inl (ConfigurationError, resolveLimits host inverted fresh)"
    using inverted_raises by (rule onPropsUpdated_inverted)
  have f: "this_values fresh = []" "this_minDate fresh = year1000"
    by (simp_all add: fresh_def)
  have n: "later \<noteq> year1000"
    by (simp add: later_def year1000_def)
  from r f n show ?thesis
    by (simp add: raised_def component_def values_inverted limits_inverted)
qed

text \<open>
  Claim C5, amended. When the method raises the ConfigurationError, the component holds
  the new values, the new lists of hours, minutes and seconds, the new precision levels
  and the newly resolved limits (everything lines 144 to 161 assign), and
  \<^verbatim>\<open>this.state.timeValues\<close>, the pending-focus flag and the focus are those of before
  the call.
\<close>

theorem C5_state_at_configuration_error:
  assumes "raised (onPropsUpdated e p s) = Some ConfigurationError"
  shows "component (onPropsUpdated e p s) = resolveLimits e p s
    \<and> this_values (resolveLimits e p s) = map normalizeValue (ensureArray (p_value p))
    \<and> this_availableHours (resolveLimits e p s) = HOURS
    \<and> this_availableMinutes (resolveLimits e p s)
        = filter (\<lambda>minute. js_not (js_rem (fst minute) (p_rounding p))) MINUTES
    \<and> this_availableSeconds (resolveLimits e p s) = (if p_rounding p \<noteq> 0 then [] else SECONDS)
    \<and> this_allowedPrecisionLevels (resolveLimits e p s)
        = filterPrecisionLevels e (p_minPrecision p) (p_maxPrecision p)
    \<and> js_lt (this_maxDate (resolveLimits e p s)) (this_minDate (resolveLimits e p s))
    \<and> this_state_timeValues (resolveLimits e p s) = this_state_timeValues s
    \<and> this_shouldAdjustFocusDate (resolveLimits e p s) = this_shouldAdjustFocusDate s
    \<and> this_focusedIndex (resolveLimits e p s) = this_focusedIndex s"
proof -
  have lt: "js_lt (this_maxDate (resolveLimits e p s)) (this_minDate (resolveLimits e p s))"
    using assms onPropsUpdated_ordered [of e p s] by blast
  then have "component (onPropsUpdated e p s) = resolveLimits e p s"
    by (simp add: onPropsUpdated_inverted component_def)
  with lt show ?thesis
    by (simp add: resolveLimits_frame resolveLimits_assigned)
qed

text \<open>The amended C5 at the properties with the limits the wrong way round.\<close>

theorem C5_state_at_configuration_error_witness:
  "component (onPropsUpdated host inverted fresh) = resolveLimits host inverted fresh
   \<and> this_values (resolveLimits host inverted fresh) = [Some later]
   \<and> this_availableHours (resolveLimits host inverted fresh) = HOURS
   \<and> this_state_timeValues (resolveLimits host inverted fresh) = this_state_timeValues fresh
   \<and> this_focusedIndex (resolveLimits host inverted fresh) = this_focusedIndex fresh"
proof -
  have r: "raised (onPropsUpdated host inverted fresh) = Some ConfigurationError"
    using inverted_raises by (simp add: onPropsUpdated_inverted raised_def)
  show ?thesis
    using C5_state_at_configuration_error [OF r] values_inverted by simp
qed

section \<open>The resolution of the two limits\<close>

text \<open>The definitions a run of the method on the sample inputs unfolds.\<close>

lemmas sample_defs =
  host_def config_def fresh_def morning_def later_def broken_def clock_def year1000_def
  year9999_def

lemmas method_defs =
  onPropsUpdated_def resolveLimits_def widenLimits_def assignDerived_def parseLimitDate_def
  clampDate_def today_def startOf_day_def endOf_day_def js_lt_def valueOf_def localMillis_def
  ensureArray_def
  normalizeValue_def timeValue_def selectTimeValues_def stringifySlot_def toStr_def
  formatTimeValues_def
  spec_adjustFocus_def spec_handle12HourSystem_def raised_def component_def Let_def

text \<open>
  Claim C7 against the code. The component holds date+time properties and is updated
  with date-only properties whose limits are 09:00:00 and 10:30:15: the limits are not
  widened, since line 158 reads \<^verbatim>\<open>this.props.type\<close> and not \<^verbatim>\<open>props.type\<close>. The
  other way round, a component holding date-only properties widens the limits of
  date+time properties.
\<close>

theorem C7_widening_reads_stale_type:
  "p_type dateOnly = DateOnly
   \<and> this_minDate (component (onPropsUpdated host dateOnly fresh)) = morning
   \<and> this_maxDate (component (onPropsUpdated host dateOnly fresh)) = later
   \<and> startOf_day morning \<noteq> morning
   \<and> endOf_day later \<noteq> later
   \<and> p_type config = DateAndTime
   \<and> this_minDate (component (onPropsUpdated host (config\<lparr>p_minDate := Explicit morning\<rparr>)
         (fresh\<lparr>this_props := dateOnly\<rparr>))) = startOf_day morning"
  by (simp add: method_defs sample_defs dateOnly_def)

lemma js_lt_irrefl: "\<not> js_lt a a"
  by (simp add: js_lt_def split: option.splits)






section \<open>The configuration error and the configuration's own limits\<close>

text \<open>With inherited methods that return, the method is \<open>onPropsUpdated\<close>.\<close>

lemma onPropsUpdated_raising_returning:
  "onPropsUpdated_raising (returning e) e p s = onPropsUpdated e p s"
  by (simp add: onPropsUpdated_raising_def storeTimeValues_def onPropsUpdated_def returning_def
      resolveLimits_def assignDerived_def Let_def split del: if_split
      cong: if_cong sum.case_cong)

text \<open>
  The limit the code resolves is the specification's, when the global bounds are in
  order and today lies within them.
\<close>

lemma parseLimitDate_spec:
  assumes "\<not> js_lt (MAX_VALID_DATE e) (MIN_VALID_DATE e)"
    and "\<not> js_lt (MAX_VALID_DATE e) (today e)" and "\<not> js_lt (today e) (MIN_VALID_DATE e)"
  shows "parseLimitDate e limit (MIN_VALID_DATE e) = spec_resolveBound e limit (MIN_VALID_DATE e)"
    and "parseLimitDate e limit (MAX_VALID_DATE e) = spec_resolveBound e limit (MAX_VALID_DATE e)"
  using assms
  by (cases limit; simp add: parseLimitDate_def spec_resolveBound_def clampDate_def js_lt_irrefl)+

text \<open>Past the check of line 163 the ConfigurationError is not raised.\<close>

lemma formatTimeValues_error: "formatTimeValues t = Inl (err, left) \<Longrightarrow> err = TypeError"
  by (auto simp: formatTimeValues_def dest: mapE_stringifySlot_error split: sum.splits)

lemma storeTimeValues_error: "raised (storeTimeValues h e p s2) \<noteq> Some ConfigurationError"
  by (auto simp: storeTimeValues_def Let_def raised_def
      dest: mapE_timeValue_error formatTimeValues_error split: sum.splits)

text \<open>
  Claim C4, amended. When the component holds the type of the configuration it is given
  (as on the first synchronization), the method raises the ConfigurationError if and
  only if the inherited \<^verbatim>\<open>filterPrecisionLevels\<close> returns and, with both limits of
  that configuration resolved as section 4.1 has it (sentinel or default, clamping,
  widening for a date-only widget), the maximum is before the minimum as an instant;
  the global bounds are in order and today lies within them. The exception leaves the
  method at line 164, whatever the inherited methods do: the call returns no component
  and assigns neither \<^verbatim>\<open>this.state.timeValues\<close> nor the focus, and the component
  holds the new values and the two limits so resolved.
\<close>

theorem C4_raises_iff_own_bounds_inverted:
  assumes held: "p_type (this_props s) = p_type p"
    and bounds: "\<not> js_lt (MAX_VALID_DATE e) (MIN_VALID_DATE e)"
    and today_hi: "\<not> js_lt (MAX_VALID_DATE e) (today e)"
    and today_lo: "\<not> js_lt (today e) (MIN_VALID_DATE e)"
  shows
    "(raised (onPropsUpdated_raising h e p s) = Some ConfigurationError)
       = (may_filterPrecisionLevels h (p_minPrecision p) (p_maxPrecision p) \<noteq> None
          \<and> js_lt (spec_effectiveMax e p) (spec_effectiveMin e p))
     \<and> (raised (onPropsUpdated_raising h e p s) = Some ConfigurationError \<longrightarrow>
          onPropsUpdated_raising h e p s
            = Inl (ConfigurationError, component (onPropsUpdated_raising h e p s))
          \<and> this_maxDate (component (onPropsUpdated_raising h e p s)) = spec_effectiveMax e p
          \<and> this_minDate (component (onPropsUpdated_raising h e p s)) = spec_effectiveMin e p
          \<and> this_values (component (onPropsUpdated_raising h e p s))
              = map normalizeValue (ensureArray (p_value p))
          \<and> this_state_timeValues (component (onPropsUpdated_raising h e p s))
              = this_state_timeValues s
          \<and> this_shouldAdjustFocusDate (component (onPropsUpdated_raising h e p s))
              = this_shouldAdjustFocusDate s
          \<and> this_focusedIndex (component (onPropsUpdated_raising h e p s))
              = this_focusedIndex s)"
proof (cases "may_filterPrecisionLevels h (p_minPrecision p) (p_maxPrecision p)")
  case None
  then have "raised (onPropsUpdated_raising h e p s) = Some InheritedError"
    by (simp add: onPropsUpdated_raising_def raised_def Let_def)
  with None show ?thesis by simp
next
  case (Some levels)
  define s1 where "s1 = s\<lparr>this_values := map normalizeValue (ensureArray (p_value p)),
                 this_availableHours := HOURS,
                 this_availableMinutes :=
                   filter (\<lambda>minute. js_not (js_rem (fst minute) (p_rounding p))) MINUTES,
                 this_availableSeconds := (if p_rounding p \<noteq> 0 then [] else SECONDS)\<rparr>"
  define s2 where "s2 = widenLimits
                         (s1\<lparr>this_allowedPrecisionLevels := levels,
                             this_additionalMonth := (p_range p \<and> \<not> isSmall e),
                             this_maxDate := parseLimitDate e (p_maxDate p) (MAX_VALID_DATE e),
                             this_minDate := parseLimitDate e (p_minDate p) (MIN_VALID_DATE e)\<rparr>)"
  have hi: "this_maxDate s2 = spec_effectiveMax e p"
    using held parseLimitDate_spec [OF bounds today_hi today_lo]
    by (simp add: s2_def s1_def widenLimits_def spec_effectiveMax_def)
  have lo: "this_minDate s2 = spec_effectiveMin e p"
    using held parseLimitDate_spec [OF bounds today_hi today_lo]
    by (simp add: s2_def s1_def widenLimits_def spec_effectiveMin_def)
  have frame: "this_values s2 = map normalizeValue (ensureArray (p_value p))"
    "this_state_timeValues s2 = this_state_timeValues s"
    "this_shouldAdjustFocusDate s2 = this_shouldAdjustFocusDate s"
    "this_focusedIndex s2 = this_focusedIndex s"
    by (simp_all add: s2_def s1_def widenLimits_def)
  show ?thesis
  proof (cases "js_lt (spec_effectiveMax e p) (spec_effectiveMin e p)")
    case True
    then have run: "onPropsUpdated_raising h e p s = Inl (ConfigurationError, s2)"
      using Some hi lo
      by (simp add: onPropsUpdated_raising_def Let_def s2_def s1_def)
    with True Some hi lo frame show ?thesis
      by (simp add: raised_def component_def)
  next
    case False
    then have "onPropsUpdated_raising h e p s = storeTimeValues h e p s2"
      using Some hi lo
      by (simp add: onPropsUpdated_raising_def Let_def s2_def s1_def)
    then have "raised (onPropsUpdated_raising h e p s) \<noteq> Some ConfigurationError"
      by (simp add: storeTimeValues_error)
    with False show ?thesis by simp
  qed
qed


text \<open>The sample surroundings meet the conditions on the global bounds.\<close>

lemma host_bounds:
  "\<not> js_lt (MAX_VALID_DATE host) (MIN_VALID_DATE host)"
  "\<not> js_lt (MAX_VALID_DATE host) (today host)"
  "\<not> js_lt (today host) (MIN_VALID_DATE host)"
  by (simp_all add: host_def today_def startOf_day_def js_lt_def valueOf_def localMillis_def
      clock_def year1000_def year9999_def)

lemmas bound_defs =
  spec_effectiveMax_def spec_effectiveMin_def spec_resolveBound_def clampDate_def js_lt_def
  valueOf_def localMillis_def startOf_day_def endOf_day_def

text \<open>
  The amended C4 at the limits the wrong way round, at limits in a repeated hour whose
  readings are the wrong way round and whose instants are not, and at precisions the
  wrong way round under the filter that fails fast.
\<close>

theorem C4_raises_witness:
  "raised (onPropsUpdated_raising (returning host) host inverted fresh) = Some ConfigurationError
   \<and> this_maxDate (component (onPropsUpdated_raising (returning host) host inverted fresh))
       = morning
   \<and> this_minDate (component (onPropsUpdated_raising (returning host) host inverted fresh))
       = later
   \<and> this_state_timeValues (component (onPropsUpdated_raising (returning host) host inverted fresh))
       = this_state_timeValues fresh
   \<and> raised (onPropsUpdated_raising (returning host) host repeatedHour fresh)
       \<noteq> Some ConfigurationError
   \<and> raised (onPropsUpdated_raising strict host invertedTwice fresh) \<noteq> Some ConfigurationError"
proof -
  have held: "p_type (this_props fresh) = p_type inverted"
    "p_type (this_props fresh) = p_type repeatedHour"
    "p_type (this_props fresh) = p_type invertedTwice"
    by (simp_all add: fresh_def inverted_def repeatedHour_def invertedTwice_def config_def)
  have returns: "may_filterPrecisionLevels (returning host) (p_minPrecision inverted)
      (p_maxPrecision inverted) \<noteq> None"
    by (simp add: returning_def)
  have rejects: "may_filterPrecisionLevels strict (p_minPrecision invertedTwice)
      (p_maxPrecision invertedTwice) = None"
    by (simp add: strict_def returning_def failfast_filterPrecisionLevels_def levelIndex_def
        invertedTwice_def)
  have own: "spec_effectiveMax host inverted = morning" "spec_effectiveMin host inverted = later"
    by (simp_all add: bound_defs inverted_def config_def host_def morning_def later_def
        year1000_def year9999_def)
  have lt: "js_lt morning later"
    by (rule morning_before_later)
  have instants: "\<not> js_lt (spec_effectiveMax host repeatedHour) (spec_effectiveMin host repeatedHour)"
    by (simp add: bound_defs repeatedHour_def config_def host_def firstPass_def secondPass_def
        year1000_def year9999_def)
  note a = C4_raises_iff_own_bounds_inverted [OF held(1) host_bounds, of "returning host"]
  note b = C4_raises_iff_own_bounds_inverted [OF held(2) host_bounds, of "returning host"]
  note c = C4_raises_iff_own_bounds_inverted [OF held(3) host_bounds, of strict]
  from a returns own lt have raisedA:
    "raised (onPropsUpdated_raising (returning host) host inverted fresh) = Some ConfigurationError"
    by simp
  from a raisedA own have stateA:
    "this_maxDate (component (onPropsUpdated_raising (returning host) host inverted fresh)) = morning
     \<and> this_minDate (component (onPropsUpdated_raising (returning host) host inverted fresh)) = later
     \<and> this_state_timeValues (component (onPropsUpdated_raising (returning host) host inverted fresh))
         = this_state_timeValues fresh"
    by simp
  from b instants have raisedB:
    "raised (onPropsUpdated_raising (returning host) host repeatedHour fresh)
       \<noteq> Some ConfigurationError"
    by simp
  from c rejects have raisedC:
    "raised (onPropsUpdated_raising strict host invertedTwice fresh) \<noteq> Some ConfigurationError"
    by simp
  from raisedA stateA raisedB raisedC show ?thesis by simp
qed

text \<open>
  Claim C4, as stated, fails. A date+time configuration whose own limits are the wrong
  way round within one day raises nothing on a component that holds date-only
  properties, and the date-only configuration with the same limits, in order once
  widened, raises on a component that holds date+time properties: line 158 widens by
  \<^verbatim>\<open>this.props.type\<close>. And where the error is raised, the component already holds the
  new \<open>values\<close> and \<open>minDate\<close>, assigned in place at lines 144 to 157.
\<close>

theorem C4_counterexample:
  "p_type sameDay = DateAndTime
   \<and> js_lt (spec_effectiveMax host sameDay) (spec_effectiveMin host sameDay)
   \<and> raised (onPropsUpdated_raising (returning host) host sameDay holdingDateOnly) = None
   \<and> p_type sameDayDate = DateOnly
   \<and> \<not> js_lt (spec_effectiveMax host sameDayDate) (spec_effectiveMin host sameDayDate)
   \<and> raised (onPropsUpdated_raising (returning host) host sameDayDate fresh)
       = Some ConfigurationError
   \<and> raised (onPropsUpdated_raising (returning host) host inverted fresh) = Some ConfigurationError
   \<and> this_values fresh = []
   \<and> this_values (component (onPropsUpdated_raising (returning host) host inverted fresh))
       = [Some later]
   \<and> this_minDate fresh = year1000
   \<and> this_minDate (component (onPropsUpdated_raising (returning host) host inverted fresh))
       = later"
proof -
  have own: "js_lt (spec_effectiveMax host sameDay) (spec_effectiveMin host sameDay)"
    "\<not> js_lt (spec_effectiveMax host sameDayDate) (spec_effectiveMin host sameDayDate)"
    by (simp_all add: bound_defs sameDay_def sameDayDate_def config_def host_def later_def
        sameDayEarly_def year1000_def year9999_def)
  have types: "p_type sameDay = DateAndTime" "p_type sameDayDate = DateOnly"
    by (simp_all add: sameDay_def sameDayDate_def config_def)
  have runs: "raised (onPropsUpdated host sameDay holdingDateOnly) = None"
    "raised (onPropsUpdated host sameDayDate fresh) = Some ConfigurationError"
    by (simp_all add: method_defs sample_defs sameDay_def sameDayDate_def holdingDateOnly_def
        dateOnly_def sameDayEarly_def)
  have left: "raised (onPropsUpdated host inverted fresh) = Some ConfigurationError"
    "this_values (component (onPropsUpdated host inverted fresh)) = [Some later]"
    "this_minDate (component (onPropsUpdated host inverted fresh)) = later"
    using inverted_raises
    by (simp_all add: onPropsUpdated_inverted raised_def component_def values_inverted
        limits_inverted)
  have before: "this_values fresh = []" "this_minDate fresh = year1000"
    by (simp_all add: fresh_def)
  from own types runs left before show ?thesis
    by (simp add: onPropsUpdated_raising_returning)
qed

section \<open>The normalized values\<close>

lemma onPropsUpdated_values:
  assumes "\<And>vals i t. this_values (adjustFocus e vals i t) = this_values t"
    and "\<And>t. this_values (handle12HourSystem e t) = this_values t"
  shows "this_values (component (onPropsUpdated e p s)) = this_values (resolveLimits e p s)"
  using assms
  by (simp add: onPropsUpdated_def formatTimeValues_def component_def Let_def split: sum.splits)

text \<open>
  Claim C9, as stated, fails. The method never reads \<^verbatim>\<open>props.range\<close> for
  \<open>values\<close>: a pair supplied in single-value mode gives two slots, one value supplied
  in range mode gives one, and both calls return a component.
\<close>

theorem C9_counterexample:
  "\<not> p_range pairSingleMode
   \<and> raised (onPropsUpdated host pairSingleMode fresh) = None
   \<and> length (this_values (component (onPropsUpdated host pairSingleMode fresh))) = 2
   \<and> p_range oneRangeMode
   \<and> raised (onPropsUpdated host oneRangeMode fresh) = None
   \<and> length (this_values (component (onPropsUpdated host oneRangeMode fresh))) = 1"
  by (simp add: method_defs sample_defs pairSingleMode_def oneRangeMode_def)

text \<open>
  Claim C9, amended. \<open>values\<close> has one slot for each slot of the supplied value, one
  for a single value and as many as the array holds for an array (two for a pair),
  whatever the range flag; a slot that is empty or fails the validity check is empty at
  its own position and every other slot holds the supplied value. The method assigns
  \<open>values\<close> at line 144 and not again, so any component it leaves holds them when the
  inherited methods do not assign \<open>values\<close>.
\<close>

theorem C9_values_follow_supplied_shape:
  "this_values (resolveLimits e p s) = map normalizeValue (ensureArray (p_value p))
   \<and> length (this_values (resolveLimits e p s))
       = (case p_value p of Single x \<Rightarrow> 1 | Multiple xs \<Rightarrow> length xs)
   \<and> (\<forall>i < length (ensureArray (p_value p)).
         this_values (resolveLimits e p s) ! i
           = (case ensureArray (p_value p) ! i of
                None \<Rightarrow> None
              | Some d \<Rightarrow> if isValid d then Some d else None))
   \<and> ((\<forall>vals i t. this_values (adjustFocus e vals i t) = this_values t)
        \<and> (\<forall>t. this_values (handle12HourSystem e t) = this_values t) \<longrightarrow>
        this_values (component (onPropsUpdated e p s))
          = map normalizeValue (ensureArray (p_value p)))"
proof -
  have v: "this_values (resolveLimits e p s) = map normalizeValue (ensureArray (p_value p))"
    by (rule resolveLimits_assigned)
  have l: "length (this_values (resolveLimits e p s))
      = (case p_value p of Single x \<Rightarrow> 1 | Multiple xs \<Rightarrow> length xs)"
    by (simp add: v ensureArray_def split: PickerValue.splits)
  have n: "\<forall>i < length (ensureArray (p_value p)).
      this_values (resolveLimits e p s) ! i
        = (case ensureArray (p_value p) ! i of
             None \<Rightarrow> None
           | Some d \<Rightarrow> if isValid d then Some d else None)"
    by (simp add: v normalizeValue_def split: option.splits)
  have f: "this_values (component (onPropsUpdated e p s))
      = map normalizeValue (ensureArray (p_value p))"
    if "(\<forall>vals i t. this_values (adjustFocus e vals i t) = this_values t)
        \<and> (\<forall>t. this_values (handle12HourSystem e t) = this_values t)"
    using that onPropsUpdated_values [of e p s] v by simp
  from v l n f show ?thesis by blast
qed

text \<open>
  The amended C9 at a range whose first value is invalid, and at a pair in single-value
  mode.
\<close>

theorem C9_values_witness:
  "this_values (component (onPropsUpdated host withBroken fresh)) = [None, Some later]
   \<and> this_values (resolveLimits host pairSingleMode fresh) = [Some morning, Some later]"
proof -
  have f: "\<forall>vals i t. this_values (adjustFocus host vals i t) = this_values t"
    "\<forall>t. this_values (handle12HourSystem host t) = this_values t"
    by (simp_all add: host_def spec_adjustFocus_def spec_handle12HourSystem_def)
  have a: "map normalizeValue (ensureArray (p_value withBroken)) = [None, Some later]"
    by (simp add: withBroken_def config_def ensureArray_def normalizeValue_def broken_def later_def)
  have b: "map normalizeValue (ensureArray (p_value pairSingleMode)) = [Some morning, Some later]"
    by (simp add: pairSingleMode_def config_def ensureArray_def normalizeValue_def morning_def later_def)
  show ?thesis
    using C9_values_follow_supplied_shape [of host withBroken fresh]
      C9_values_follow_supplied_shape [of host pairSingleMode fresh] f a b
    by simp
qed

section \<open>The time values\<close>

text \<open>
  An empty slot stops the method at line 170, whatever the other slots hold.
\<close>

lemma timeValue_null_raises: "None \<in> set vals \<Longrightarrow> mapE (timeValue e) vals = Inl TypeError"
proof (induction vals)
  case Nil
  then show ?case by simp
next
  case (Cons v vs)
  show ?case
  proof (cases v)
    case None
    then show ?thesis by (simp add: timeValue_def)
  next
    case (Some d)
    with Cons show ?thesis by (simp add: timeValue_def)
  qed
qed

lemma null_slot_raises:
  assumes "\<not> js_lt (this_maxDate (resolveLimits e p s)) (this_minDate (resolveLimits e p s))"
    and "None \<in> set (map normalizeValue (ensureArray (p_value p)))"
  shows "onPropsUpdated e p s = Inl (TypeError, resolveLimits e p s)"
  using assms timeValue_null_raises [of "this_values (resolveLimits e p s)" e]
  by (simp add: onPropsUpdated_def Let_def resolveLimits_assigned)

text \<open>
  Claim C1 against the code. For the range \<^verbatim>\<open>[null, validDate]\<close> the method raises the
  TypeError of line 170 (\<^verbatim>\<open>val.minute\<close> on \<^verbatim>\<open>null\<close>) and leaves
  \<^verbatim>\<open>this.state.timeValues\<close> unassigned; so it does for the single value \<^verbatim>\<open>null\<close>.
\<close>

theorem C1_null_slot_raises:
  "raised (onPropsUpdated host rangeWithGap fresh) = Some TypeError
   \<and> this_state_timeValues (component (onPropsUpdated host rangeWithGap fresh)) = []
   \<and> raised (onPropsUpdated host config fresh) = Some TypeError"
  by (simp add: method_defs sample_defs rangeWithGap_def)

text \<open>
  Claim C6 against the code. The value is 09:00:00 and the clock reads 14:37:52: the
  time value stored is 9, 37, 52, the minute and the second of the clock, since the
  number 0 is falsy in \<^verbatim>\<open>val.minute || DateTime.local().minute\<close>.
\<close>

theorem C6_zero_minute_reads_clock:
  "minute morning = 0 \<and> second morning = 0
   \<and> minute clock = 37 \<and> second clock = 52
   \<and> raised (onPropsUpdated host atMorning fresh) = None
   \<and> this_state_timeValues (component (onPropsUpdated host atMorning fresh))
       = [Elem [Str ''9'', Str ''37'', Str ''52'']]"
  by (simp add: method_defs sample_defs atMorning_def js_String.simps digit_def)

section \<open>The slot of the time values in single-value mode\<close>

text \<open>
  Claim C2, as stated, fails. In single-value mode with the second slot requested, the
  probing \<open>adjustFocus\<close> finds two indices of \<^verbatim>\<open>this.state.timeValues\<close> assigned when
  it is called, the hole and the requested slot, where the array was empty before the
  method: the slot is selected at lines 178 and 179, before the call of line 183.
\<close>

theorem C2_counterexample:
  "\<not> p_range pairSingleMode
   \<and> this_state_timeValues fresh = []
   \<and> raised (onPropsUpdated probe pairSingleMode fresh) = None
   \<and> p_focusedDateIndex pairSingleMode = 1
   \<and> this_focusedIndex (component (onPropsUpdated probe pairSingleMode fresh)) = 2"
  by (simp add: method_defs sample_defs probe_def probe_adjustFocus_def pairSingleMode_def)

lemma mapE_append:
  "mapE f (xs @ ys) =
     (case mapE f xs of
        Inl err \<Rightarrow> Inl err
      | Inr a \<Rightarrow> (case mapE f ys of Inl err \<Rightarrow> Inl err | Inr b \<Rightarrow> Inr (a @ b)))"
  by (induction xs) (simp_all split: sum.splits)

lemma mapE_holes: "mapE stringifySlot (replicate n Hole) = Inr (replicate n Hole)"
  by (induction n) (simp_all add: stringifySlot_def)

lemma formatTimeValues_selected:
  assumes "this_state_timeValues t = replicate i Hole @ [if c then Elem tv else Undefined]"
    and "raised (formatTimeValues t) = None"
  shows "c \<and> this_state_timeValues (component (formatTimeValues t))
      = replicate i Hole @ [Elem (map toStr tv)]"
  using assms
  by (cases c)
    (simp_all add: formatTimeValues_def mapE_append mapE_holes stringifySlot_def raised_def
      component_def)

lemma onPropsUpdated_produced:
  assumes "raised (onPropsUpdated e p s) = None"
  shows "\<exists>tvs. mapE (timeValue e) (this_values (resolveLimits e p s)) = Inr tvs
    \<and> onPropsUpdated e p s =
        formatTimeValues
          (handle12HourSystem e
            (adjustFocus e (this_values (resolveLimits e p s)) (p_focusedDateIndex p)
              ((resolveLimits e p s)
                 \<lparr>this_state_timeValues := selectTimeValues p tvs,
                  this_shouldAdjustFocusDate := (\<not> p_range p)\<rparr>)))"
  using assms
  by (auto simp: onPropsUpdated_def Let_def raised_def split: if_splits sum.splits)

text \<open>
  Claim C2, amended. In single-value mode the slot is selected at the requested index
  \<^verbatim>\<open>props.focusedDateIndex\<close> before the focus is adjusted: \<open>adjustFocus\<close> is called on
  the component that already holds the selection. When the method returns and the
  inherited methods leave \<^verbatim>\<open>this.state.timeValues\<close> alone, the requested index is a
  slot of \<open>values\<close>, it alone carries a time value, every index below it is a hole and
  there is no index above it.
\<close>

theorem C2_single_mode_selects_requested_slot:
  assumes single: "\<not> p_range p"
    and produced: "raised (onPropsUpdated e p s) = None"
  shows "\<exists>tvs. mapE (timeValue e) (this_values (resolveLimits e p s)) = Inr tvs
    \<and> selectTimeValues p tvs
        = replicate (p_focusedDateIndex p) Hole @
          [if p_focusedDateIndex p < length tvs then Elem (tvs ! p_focusedDateIndex p)
           else Undefined]
    \<and> onPropsUpdated e p s =
        formatTimeValues
          (handle12HourSystem e
            (adjustFocus e (this_values (resolveLimits e p s)) (p_focusedDateIndex p)
              ((resolveLimits e p s)
                 \<lparr>this_state_timeValues := selectTimeValues p tvs,
                  this_shouldAdjustFocusDate := True\<rparr>)))
    \<and> ((\<forall>vals i t. this_state_timeValues (adjustFocus e vals i t) = this_state_timeValues t)
         \<and> (\<forall>t. this_state_timeValues (handle12HourSystem e t) = this_state_timeValues t) \<longrightarrow>
         p_focusedDateIndex p < length tvs
         \<and> this_state_timeValues (component (onPropsUpdated e p s))
             = replicate (p_focusedDateIndex p) Hole @
               [Elem (map toStr (tvs ! p_focusedDateIndex p))])"
proof -
  define i where "i = p_focusedDateIndex p"
  from onPropsUpdated_produced [OF produced] obtain tvs where
    tvs: "mapE (timeValue e) (this_values (resolveLimits e p s)) = Inr tvs"
    and run: "onPropsUpdated e p s =
        formatTimeValues
          (handle12HourSystem e
            (adjustFocus e (this_values (resolveLimits e p s)) (p_focusedDateIndex p)
              ((resolveLimits e p s)
                 \<lparr>this_state_timeValues := selectTimeValues p tvs,
                  this_shouldAdjustFocusDate := (\<not> p_range p)\<rparr>)))"
    by blast
  have sel: "selectTimeValues p tvs
      = replicate i Hole @ [if i < length tvs then Elem (tvs ! i) else Undefined]"
    using single by (simp add: selectTimeValues_def i_def)
  have framed: "i < length tvs
      \<and> this_state_timeValues (component (onPropsUpdated e p s))
          = replicate i Hole @ [Elem (map toStr (tvs ! i))]"
    if fr: "(\<forall>vals i t. this_state_timeValues (adjustFocus e vals i t) = this_state_timeValues t)
         \<and> (\<forall>t. this_state_timeValues (handle12HourSystem e t) = this_state_timeValues t)"
  proof -
    let ?t = "handle12HourSystem e
            (adjustFocus e (this_values (resolveLimits e p s)) (p_focusedDateIndex p)
              ((resolveLimits e p s)
                 \<lparr>this_state_timeValues := selectTimeValues p tvs,
                  this_shouldAdjustFocusDate := (\<not> p_range p)\<rparr>))"
    have held: "this_state_timeValues ?t
        = replicate i Hole @ [if i < length tvs then Elem (tvs ! i) else Undefined]"
      using fr sel by simp
    have ok: "raised (formatTimeValues ?t) = None"
      using produced run by simp
    from formatTimeValues_selected [OF held ok] run show ?thesis
      by simp
  qed
  have run': "onPropsUpdated e p s =
        formatTimeValues
          (handle12HourSystem e
            (adjustFocus e (this_values (resolveLimits e p s)) (p_focusedDateIndex p)
              ((resolveLimits e p s)
                 \<lparr>this_state_timeValues := selectTimeValues p tvs,
                  this_shouldAdjustFocusDate := True\<rparr>)))"
    using run single by simp
  show ?thesis
  proof (intro exI [of _ tvs] conjI)
    show "mapE (timeValue e) (this_values (resolveLimits e p s)) = Inr tvs"
      by (fact tvs)
    show "selectTimeValues p tvs
        = replicate (p_focusedDateIndex p) Hole @
          [if p_focusedDateIndex p < length tvs then Elem (tvs ! p_focusedDateIndex p)
           else Undefined]"
      using sel by (simp add: i_def)
    show "onPropsUpdated e p s =
        formatTimeValues
          (handle12HourSystem e
            (adjustFocus e (this_values (resolveLimits e p s)) (p_focusedDateIndex p)
              ((resolveLimits e p s)
                 \<lparr>this_state_timeValues := selectTimeValues p tvs,
                  this_shouldAdjustFocusDate := True\<rparr>)))"
      by (fact run')
    show "(\<forall>vals i t. this_state_timeValues (adjustFocus e vals i t) = this_state_timeValues t)
         \<and> (\<forall>t. this_state_timeValues (handle12HourSystem e t) = this_state_timeValues t) \<longrightarrow>
         p_focusedDateIndex p < length tvs
         \<and> this_state_timeValues (component (onPropsUpdated e p s))
             = replicate (p_focusedDateIndex p) Hole @
               [Elem (map toStr (tvs ! p_focusedDateIndex p))]"
      using framed unfolding i_def by blast
  qed
qed

text \<open>The amended C2 at the pair in single-value mode with the second slot requested.\<close>

theorem C2_single_mode_witness:
  "this_state_timeValues (component (onPropsUpdated host pairSingleMode fresh))
     = [Hole, Elem [Str ''10'', Str ''30'', Str ''15'']]"
proof -
  have single: "\<not> p_range pairSingleMode"
    by (simp add: pairSingleMode_def config_def)
  have produced: "raised (onPropsUpdated host pairSingleMode fresh) = None"
    by (simp add: method_defs sample_defs pairSingleMode_def)
  have fr: "\<forall>vals i t. this_state_timeValues (adjustFocus host vals i t) = this_state_timeValues t"
    "\<forall>t. this_state_timeValues (handle12HourSystem host t) = this_state_timeValues t"
    by (simp_all add: host_def spec_adjustFocus_def spec_handle12HourSystem_def)
  have run: "mapE (timeValue host) (this_values (resolveLimits host pairSingleMode fresh))
      = Inr [[Num 9, Num 37, Num 52], [Num 10, Num 30, Num 15]]"
    by (simp add: method_defs sample_defs pairSingleMode_def)
  have i: "p_focusedDateIndex pairSingleMode = 1"
    by (simp add: pairSingleMode_def config_def)
  from C2_single_mode_selects_requested_slot [OF single produced] fr run i
  have "this_state_timeValues (component (onPropsUpdated host pairSingleMode fresh))
      = replicate 1 Hole @ [Elem (map toStr ([[Num 9, Num 37, Num 52], [Num 10, Num 30, Num 15]] ! 1))]"
    by auto
  then show ?thesis
    by (simp add: toStr_def js_String.simps digit_def)
qed

end
